theory Spec2Isabelle
  imports Complex_Main
begin

section \<open>Errors and effects shared by all modules\<close>

text \<open>
  JavaScript exceptions are values. \<open>AxiosError resp\<close> is the rejection of
  \<open>axios.get\<close>; \<open>resp\<close> is \<open>error.response.status\<close> when the error carries a
  response and \<open>None\<close> when it does not (network failures, parse failures).
  \<open>CacheError\<close> is the rejection of a Redis command.
\<close>

datatype error =
    AxiosError "nat option"
  | JsError string
  | TypeError string
  | ReferenceError string
  | CacheError

text \<open>What one call of \<open>fetchWithRetry\<close> does to the outside world, in order.\<close>

datatype effect =
    HttpGet string "(string \<times> string) list"
  | ConsoleWarn
  | Sleep rat

datatype 'a axios_result = Resolved 'a | Rejected "nat option"

section \<open>apiClient: the retrying fetch\<close>

text \<open>
  \<open>const isTransientError = error.response &&
     (error.response.status === 429 || error.response.status >= 500)\<close>
\<close>

definition isTransientError :: "nat option \<Rightarrow> bool" where
  "isTransientError resp =
     (case resp of None \<Rightarrow> False | Some status \<Rightarrow> status = 429 \<or> status \<ge> 500)"

text \<open>
  The body of the \<open>for\<close> loop of \<open>fetchWithRetry\<close>, from index \<open>i\<close> on.
  \<open>get i\<close> is the outcome of the \<open>axios.get\<close> call of attempt \<open>i\<close>, \<open>rnd i\<close>
  the value \<open>Math.random()\<close> returns in attempt \<open>i\<close>. Delays are in milliseconds.
  A loop that ends without returning makes the function return \<open>undefined\<close>: \<open>Inr None\<close>.
\<close>

function fetch_loop ::
  "(nat \<Rightarrow> 'a axios_result) \<Rightarrow> (nat \<Rightarrow> rat) \<Rightarrow> string \<Rightarrow> (string \<times> string) list \<Rightarrow> nat \<Rightarrow> nat
     \<Rightarrow> (error + 'a option) \<times> effect list" where
  "fetch_loop get rnd url config retries i =
     (if i < retries then
        (case get i of
           Resolved d \<Rightarrow> (Inr (Some d), [HttpGet url config])
         | Rejected resp \<Rightarrow>
             if i = retries - 1 \<or> \<not> isTransientError resp
             then (Inl (AxiosError resp), [HttpGet url config])
             else
               (case fetch_loop get rnd url config retries (i + 1) of
                  (r, tr) \<Rightarrow>
                    (r, [HttpGet url config, ConsoleWarn, Sleep (2 ^ i * 1000 + rnd i * 500)] @ tr)))
      else (Inr None, []))"
  by pat_completeness auto
termination
  by (relation "measure (\<lambda>(get, rnd, url, config, retries, i). retries - i)") auto

declare fetch_loop.simps [simp del]

definition fetchWithRetry ::
  "(nat \<Rightarrow> 'a axios_result) \<Rightarrow> (nat \<Rightarrow> rat) \<Rightarrow> string \<Rightarrow> (string \<times> string) list \<Rightarrow> nat
     \<Rightarrow> (error + 'a option) \<times> effect list" where
  "fetchWithRetry get rnd url config retries = fetch_loop get rnd url config retries 0"

text \<open>Reading a trace: the HTTP attempts made and the delays slept, in order.\<close>

fun attempts :: "effect list \<Rightarrow> nat" where
  "attempts [] = 0"
| "attempts (HttpGet u c # tr) = Suc (attempts tr)"
| "attempts (e # tr) = attempts tr"

fun delays :: "effect list \<Rightarrow> rat list" where
  "delays [] = []"
| "delays (Sleep d # tr) = d # delays tr"
| "delays (e # tr) = delays tr"

section \<open>apiClient: the three upstream fetchers\<close>

record Volume =
  h24 :: "rat option"

text \<open>
  A pair of the DexScreener response. \<open>priceUsd\<close> is the number \<open>parseFloat\<close> reads
  from the field, \<open>None\<close> when it reads \<open>NaN\<close>; \<open>volume\<close> is \<open>None\<close> when the
  pair has no \<open>volume\<close> object (the comparator of the ticker reads \<open>b.volume?.h24\<close>).
  Numbers are exact rationals: rounding of doubles is outside the model.
\<close>

record Pair =
  priceUsd :: "rat option"
  volume :: "Volume option"

record dex_body =
  pairs :: "Pair list option"

datatype PriceEntry = PriceEntry string

record gecko_body =
  data_field :: "string list option"
  included :: "string list option"

record gecko_result =
  pools :: "string list"
  related :: "string list"

text \<open>\<open>x || []\<close> on a value that is an array or missing.\<close>

definition or_empty :: "'a list option \<Rightarrow> 'a list" where
  "or_empty x = (case x of None \<Rightarrow> [] | Some xs \<Rightarrow> xs)"

text \<open>
  \<open>fetchDexScreener\<close>: \<open>data.pairs\<close> on an undefined \<open>data\<close> is a TypeError.
  The HTTP environment gives, for a URL, the outcome of each attempt.
\<close>

definition fetchDexScreener ::
  "(string \<Rightarrow> nat \<Rightarrow> dex_body axios_result) \<Rightarrow> (nat \<Rightarrow> rat) \<Rightarrow> string \<Rightarrow> error + Pair list" where
  "fetchDexScreener http rnd symbol =
     (let url = ''https://api.dexscreener.com/latest/dex/search?q='' @ symbol
      in case fst (fetchWithRetry (http url) rnd url [] 3) of
           Inl e \<Rightarrow> Inl e
         | Inr None \<Rightarrow> Inl (TypeError ''Cannot read properties of undefined (reading pairs)'')
         | Inr (Some d) \<Rightarrow> Inr (or_empty (pairs d)))"

definition fetchJupiterPrice ::
  "(string \<Rightarrow> nat \<Rightarrow> PriceEntry list axios_result) \<Rightarrow> (nat \<Rightarrow> rat) \<Rightarrow> string
     \<Rightarrow> error + PriceEntry list" where
  "fetchJupiterPrice http rnd symbol =
     (let url = ''https://lite-api.jup.ag/tokens/v2/search?query='' @ symbol
      in case fst (fetchWithRetry (http url) rnd url [] 3) of
           Inl e \<Rightarrow> Inl e
         | Inr d \<Rightarrow> Inr (or_empty d))"

text \<open>
  Identifiers are resolved in the scope of the module. \<open>module_scope\<close> lists every
  binding that \<open>apiClient\<close> declares at its top level (its \<open>require\<close>s, constants and
  functions); \<open>GECKO_API_KEY\<close> holds \<open>process.env.GECKOTERMINAL_API_KEY\<close>, which is
  \<open>undefined\<close> when the variable is unset. Reading a name that is bound nowhere
  raises a ReferenceError. The guard of \<open>fetchGeckoTerminal\<close> reads module names only:
  the locals of the function (\<open>symbol\<close>, \<open>url\<close>, \<open>headers\<close>, \<open>data\<close>) and the globals
  of Node are other names, and no file of the repository assigns a global.
\<close>

datatype jsval = Undefined | Str string | Num rat | Obj

definition module_scope :: "string option \<Rightarrow> string \<rightharpoonup> jsval" where
  "module_scope env_key = map_of
     [(''axios'', Obj), (''getJson'', Obj), (''setJson'', Obj), (''redis'', Obj),
      (''GECKO_API_KEY'', (case env_key of None \<Rightarrow> Undefined | Some k \<Rightarrow> Str k)),
      (''CACHE_TTL'', Num 30),
      (''TOKEN_LIST_KEY'', Str ''global_token_list''),
      (''fetchWithRetry'', Obj), (''fetchDexScreener'', Obj), (''fetchJupiterPrice'', Obj),
      (''fetchGeckoTerminal'', Obj), (''mergeAndCleanTokenData'', Obj), (''getTokenList'', Obj)]"

definition resolve :: "(string \<rightharpoonup> jsval) \<Rightarrow> string \<Rightarrow> error + jsval" where
  "resolve scope name =
     (case scope name of None \<Rightarrow> Inl (ReferenceError name) | Some v \<Rightarrow> Inr v)"

definition falsy :: "jsval \<Rightarrow> bool" where
  "falsy v = (v = Undefined \<or> v = Str [] \<or> v = Num 0)"

definition missing_key_message :: string where
  "missing_key_message = ''GeckoTerminal API Key is missing or invalid in the .env file.''"

text \<open>
  \<open>fetchGeckoTerminal\<close>. The guard is
  \<open>!GECKO_API_KEY || GCHO_API_KEY === 'YOUR_GECKOTERMINAL_API_KEY'\<close>; \<open>||\<close> evaluates its
  right operand only when the left one is false.
\<close>

definition fetchGeckoTerminal ::
  "string option \<Rightarrow> (string \<Rightarrow> nat \<Rightarrow> gecko_body axios_result) \<Rightarrow> (nat \<Rightarrow> rat) \<Rightarrow> string
     \<Rightarrow> (error + gecko_result) \<times> effect list" where
  "fetchGeckoTerminal env_key http rnd symbol =
     (let scope = module_scope env_key;
          url = ''https://api.geckoterminal.com/api/v2/search/pools?query='' @ symbol
      in case resolve scope ''GECKO_API_KEY'' of
           Inl e \<Rightarrow> (Inl e, [])
         | Inr key \<Rightarrow>
             let headers = [(''Accept'', ''application/json''),
                            (''Authorization'', ''Bearer '' @
                               (case key of Str k \<Rightarrow> k | _ \<Rightarrow> ''undefined''))]
             in if falsy key then (Inl (JsError missing_key_message), [])
                else
                  (case resolve scope ''GCHO_API_KEY'' of
                     Inl e \<Rightarrow> (Inl e, [])
                   | Inr g \<Rightarrow>
                       if g = Str ''YOUR_GECKOTERMINAL_API_KEY''
                       then (Inl (JsError missing_key_message), [])
                       else
                         (case fetchWithRetry (http url) rnd url headers 3 of
                            (Inl e, tr) \<Rightarrow> (Inl e, tr)
                          | (Inr None, tr) \<Rightarrow>
                              (Inl (TypeError ''Cannot read properties of undefined (reading data)''), tr)
                          | (Inr (Some d), tr) \<Rightarrow>
                              (Inr \<lparr>pools = or_empty (data_field d),
                                    related = or_empty (included d)\<rparr>, tr))))"

section \<open>apiClient: the merge\<close>

record TokenRecord =
  token_id :: string
  price :: rat
  volume24h :: rat
  priceChange1h :: rat
  priceChange24h :: rat

record RawSourceResult =
  symbol :: string
  dexScreener :: "Pair list option"
  jupiterPrice :: "PriceEntry list option"

text \<open>\<open>mergeAndCleanTokenData\<close> returns a literal list; \<open>rawPairs\<close> is not read.\<close>

definition mergeAndCleanTokenData :: "RawSourceResult list \<Rightarrow> TokenRecord list" where
  "mergeAndCleanTokenData rawPairs =
     [\<lparr>token_id = ''SOL'', price = 15025 / 100, volume24h = 1500000000,
       priceChange1h = 5 / 10, priceChange24h = 72 / 10\<rparr>,
      \<lparr>token_id = ''JUP'', price = 85 / 100, volume24h = 50000000,
       priceChange1h = - (12 / 10), priceChange24h = 31 / 10\<rparr>,
      \<lparr>token_id = ''BONK'', price = 25 / 1000000, volume24h = 120000000,
       priceChange1h = 21 / 10, priceChange24h = 155 / 10\<rparr>]"

section \<open>redisClient: the cache store\<close>

record QueryResultView =
  data :: "TokenRecord list"
  pagination_limit :: "int option"
  pagination_nextCursor :: "string option"
  cached :: bool
  cacheTime :: nat

text \<open>
  The JSON values this program writes to Redis. A TickerState is \<open>{ price: newPrice }\<close>;
  \<open>JSON.stringify\<close> writes a \<open>NaN\<close> price as \<open>null\<close>, here \<open>None\<close>.
\<close>

datatype cached_value =
    Catalog "TokenRecord list"
  | View QueryResultView
  | Ticker "rat option"

datatype log_entry = LogInfo string | LogWarn string | LogError string

text \<open>
  A PriceUpdateEvent. \<open>JSON.stringify\<close> of the event is modelled by the event itself;
  \<open>ev_price\<close> is \<open>newPrice\<close> (\<open>None\<close> for \<open>NaN\<close>), \<open>ev_volume24h\<close> is \<open>None\<close> when
  \<open>h24\<close> is undefined, \<open>ev_timestamp\<close> the clock.
\<close>

record PriceUpdateEvent =
  ev_symbol :: string
  ev_price :: "rat option"
  ev_volume24h :: "rat option"
  ev_timestamp :: nat

text \<open>
  The Redis server and the console of the process. Each key holds a value and the
  time, in seconds, at which it expires (\<open>SET key value EX ttl\<close>); \<open>reachable\<close> is
  false when commands are rejected; \<open>published\<close> lists the messages sent with
  \<open>PUBLISH\<close>, oldest first.
\<close>

record world =
  store :: "string \<rightharpoonup> cached_value \<times> nat"
  reachable :: bool
  published :: "(string \<times> PriceUpdateEvent) list"
  console :: "log_entry list"

definition CACHE_TTL_SECONDS :: nat where
  "CACHE_TTL_SECONDS = 30"

definition getJson :: "world \<Rightarrow> nat \<Rightarrow> string \<Rightarrow> error + cached_value option" where
  "getJson w now key =
     (if \<not> reachable w then Inl CacheError
      else Inr (case store w key of
                  None \<Rightarrow> None
                | Some (v, expires) \<Rightarrow> if now < expires then Some v else None))"

text \<open>\<open>ttl = None\<close> is a call without the third argument: the default applies.\<close>

definition setJson :: "world \<Rightarrow> nat \<Rightarrow> string \<Rightarrow> cached_value \<Rightarrow> nat option \<Rightarrow> error + world" where
  "setJson w now key v ttl =
     (let ttl' = (case ttl of None \<Rightarrow> CACHE_TTL_SECONDS | Some t \<Rightarrow> t)
      in if \<not> reachable w then Inl CacheError
         else Inr (w\<lparr>store := (store w)(key \<mapsto> (v, now + ttl'))\<rparr>))"

definition console_log :: "log_entry \<Rightarrow> world \<Rightarrow> world" where
  "console_log l w = w\<lparr>console := console w @ [l]\<rparr>"

section \<open>apiClient: the token list endpoint\<close>

definition CACHE_TTL :: nat where
  "CACHE_TTL = 30"

definition TOKEN_LIST_KEY :: string where
  "TOKEN_LIST_KEY = ''global_token_list''"

text \<open>
  \<open>parseInt(s, 10)\<close>: leading white space is skipped, then an optional sign, then the
  longest run of decimal digits; \<open>None\<close> is \<open>NaN\<close> (no digit). Characters are bytes, so
  only the ASCII white space is known here.
\<close>

definition is_ws :: "char \<Rightarrow> bool" where
  "is_ws c = (c \<in> set [CHR 0x09, CHR 0x0A, CHR 0x0B, CHR 0x0C, CHR 0x0D, CHR 0x20])"

definition is_digit :: "char \<Rightarrow> bool" where
  "is_digit c = (48 \<le> (of_char c :: nat) \<and> (of_char c :: nat) \<le> 57)"

definition digit_val :: "char \<Rightarrow> nat" where
  "digit_val c = of_char c - 48"

definition digits_val :: "string \<Rightarrow> nat" where
  "digits_val ds = foldl (\<lambda>a c. 10 * a + digit_val c) 0 ds"

definition parseInt :: "string \<Rightarrow> int option" where
  "parseInt s =
     (let t = dropWhile is_ws s;
          neg = (case t of [] \<Rightarrow> False | c # r \<Rightarrow> c = CHR ''-'');
          u = (case t of [] \<Rightarrow> [] | c # r \<Rightarrow> if c = CHR ''-'' \<or> c = CHR ''+'' then r else t);
          ds = takeWhile is_digit u
      in if ds = [] then None
         else Some (if neg then - int (digits_val ds) else int (digits_val ds)))"

text \<open>\<open>Number.prototype.toString\<close> on an integer.\<close>

definition digit_char :: "nat \<Rightarrow> char" where
  "digit_char d = ''0123456789'' ! d"

fun show_nat :: "nat \<Rightarrow> string" where
  "show_nat n =
     (if n < 10 then [digit_char n] else show_nat (n div 10) @ [digit_char (n mod 10)])"

declare show_nat.simps [simp del]

definition toString :: "int \<Rightarrow> string" where
  "toString i = (if i < 0 then CHR ''-'' # show_nat (nat (- i)) else show_nat (nat i))"

text \<open>
  \<open>Array.prototype.slice(start, end)\<close>: a negative index counts from the end, every
  index is clamped to the array, and \<open>NaN\<close> (here \<open>None\<close>) is read as 0.
\<close>

definition rel_index :: "int option \<Rightarrow> nat \<Rightarrow> nat" where
  "rel_index i len =
     (case i of
        None \<Rightarrow> 0
      | Some j \<Rightarrow> if j < 0 then nat (max (int len + j) 0) else min (nat j) len)"

definition slice :: "'a list \<Rightarrow> int option \<Rightarrow> int option \<Rightarrow> 'a list" where
  "slice xs start end' =
     (let k = rel_index start (length xs); final = rel_index end' (length xs)
      in take (final - k) (drop k xs))"

text \<open>Addition of numbers that may be \<open>NaN\<close>.\<close>

definition js_add :: "int option \<Rightarrow> int option \<Rightarrow> int option" where
  "js_add a b = (case (a, b) of (Some x, Some y) \<Rightarrow> Some (x + y) | _ \<Rightarrow> None)"

text \<open>
  \<open>a[sortBy] || 0\<close> for the comparator \<open>(b[sortBy] || 0) - (a[sortBy] || 0)\<close>. The four
  numeric fields give their number. Any other name gives a comparator result of 0
  for every two records: a missing property is \<open>undefined\<close>, and the \<open>id\<close> of a record
  is a token symbol, whose difference is \<open>NaN\<close>, which \<open>sort\<close> reads as 0.
\<close>

definition sort_field :: "string \<Rightarrow> TokenRecord \<Rightarrow> rat" where
  "sort_field sortBy a =
     (if sortBy = ''price'' then price a
      else if sortBy = ''volume24h'' then volume24h a
      else if sortBy = ''priceChange1h'' then priceChange1h a
      else if sortBy = ''priceChange24h'' then priceChange24h a
      else 0)"

text \<open>\<open>Array.prototype.sort\<close> is stable; the comparator orders by descending value.\<close>

definition sort_desc :: "('a \<Rightarrow> rat) \<Rightarrow> 'a list \<Rightarrow> 'a list" where
  "sort_desc f xs = sort_key (\<lambda>a. - f a) xs"

record query =
  q_limit :: "string option"
  q_sortBy :: "string option"
  q_filterBy :: "string option"
  q_nextCursor :: "string option"

text \<open>
  The body of a response: a view, an error object, or \<open>{ ...cachedList, cached: true }\<close>
  for a cached value that is not a view.
\<close>

datatype body =
    ViewBody QueryResultView
  | ErrorBody string
  | SpreadBody cached_value

record response =
  status :: nat
  body :: body

definition cache_key :: "query \<Rightarrow> string" where
  "cache_key q =
     TOKEN_LIST_KEY @ ''_'' @ (case q_limit q of None \<Rightarrow> ''20'' | Some l \<Rightarrow> l)
       @ ''_'' @ (case q_sortBy q of None \<Rightarrow> ''volume24h'' | Some s \<Rightarrow> s)
       @ ''_'' @ (case q_filterBy q of None \<Rightarrow> ''24h'' | Some f \<Rightarrow> f)"

definition internal_error :: "world \<Rightarrow> response \<times> world" where
  "internal_error w =
     (\<lparr>status = 500, body = ErrorBody ''Internal server error during list retrieval.''\<rparr>,
      console_log (LogError ''Error fetching token list:'') w)"

definition unavailable :: response where
  "unavailable =
     \<lparr>status = 503, body = ErrorBody ''Token list is currently being aggregated. Try again shortly.''\<rparr>"

text \<open>
  \<open>getTokenList\<close>, at clock \<open>now\<close>. A stored value under the catalog key that is not an
  array has no \<open>sort\<close> method: the TypeError is caught by the handler's \<open>catch\<close>.
\<close>

definition getTokenList :: "query \<Rightarrow> nat \<Rightarrow> world \<Rightarrow> response \<times> world" where
  "getTokenList q now w =
     (let limit = (case q_limit q of None \<Rightarrow> ''20'' | Some l \<Rightarrow> l);
          sortBy = (case q_sortBy q of None \<Rightarrow> ''volume24h'' | Some s \<Rightarrow> s);
          cacheKey = cache_key q
      in case getJson w now cacheKey of
           Inl e \<Rightarrow> internal_error w
         | Inr (Some cachedList) \<Rightarrow>
             (\<lparr>status = 200,
               body = (case cachedList of
                         View v \<Rightarrow> ViewBody (v\<lparr>cached := True\<rparr>)
                       | other \<Rightarrow> SpreadBody other)\<rparr>,
              console_log (LogInfo ''Cache HIT for Token List'') w)
         | Inr None \<Rightarrow>
             (case getJson w now TOKEN_LIST_KEY of
                Inl e \<Rightarrow> internal_error w
              | Inr None \<Rightarrow> (unavailable, w)
              | Inr (Some (Catalog fullList)) \<Rightarrow>
                  if length fullList = 0 then (unavailable, w)
                  else
                    let sorted = sort_desc (sort_field sortBy) fullList;
                        startIndex = (case q_nextCursor q of
                                        None \<Rightarrow> Some 0
                                      | Some c \<Rightarrow> if c = [] then Some 0 else parseInt c);
                        limitInt = parseInt limit;
                        paginatedList = slice sorted startIndex (js_add startIndex limitInt);
                        next = (case js_add startIndex limitInt of
                                  None \<Rightarrow> None
                                | Some e \<Rightarrow> if e < int (length sorted) then Some (toString e) else None);
                        responseBody = \<lparr>data = paginatedList, pagination_limit = limitInt,
                                        pagination_nextCursor = next, cached = False,
                                        cacheTime = now\<rparr>
                    in (case setJson w now cacheKey (View responseBody) (Some CACHE_TTL) of
                          Inl e \<Rightarrow> internal_error w
                        | Inr w' \<Rightarrow> (\<lparr>status = 200, body = ViewBody responseBody\<rparr>, w'))
              | Inr (Some other) \<Rightarrow> internal_error w))"

section \<open>scheduler\<close>

definition REALTIME_CHANNEL :: string where
  "REALTIME_CHANNEL = ''token_price_updates''"

definition MOCK_TOP_TOKENS :: "string list" where
  "MOCK_TOP_TOKENS = [''SOL'', ''JUP'', ''BONK'', ''WEN'']"

text \<open>
  The default schedules, as periods in seconds: \<open>'*/5 * * * *'\<close> is every 5 minutes,
  \<open>'*/5 * * * * *'\<close> every 5 seconds.
\<close>

definition AGGREGATION_PERIOD :: nat where
  "AGGREGATION_PERIOD = 5 * 60"

definition TICKER_PERIOD :: nat where
  "TICKER_PERIOD = 5"

text \<open>\<open>Promise.allSettled\<close>: a fulfilled promise gives its value, a rejected one \<open>null\<close>.\<close>

definition settled :: "error + 'a \<Rightarrow> 'a option" where
  "settled r = (case r of Inl e \<Rightarrow> None | Inr v \<Rightarrow> Some v)"

text \<open>Truthiness of a value that is an array or \<open>null\<close>: every array is truthy.\<close>

definition truthy :: "'a option \<Rightarrow> bool" where
  "truthy x = (case x of None \<Rightarrow> False | Some v \<Rightarrow> True)"

text \<open>
  \<open>runFullAggregation\<close>, at clock \<open>now\<close>. The whole body is inside \<open>try\<close>; the only
  statement that can throw is \<open>setJson\<close>, and the \<open>catch\<close> logs. The function always
  returns.
\<close>

definition runFullAggregation ::
  "(string \<Rightarrow> nat \<Rightarrow> dex_body axios_result) \<Rightarrow> (string \<Rightarrow> nat \<Rightarrow> PriceEntry list axios_result)
     \<Rightarrow> (nat \<Rightarrow> rat) \<Rightarrow> nat \<Rightarrow> world \<Rightarrow> world" where
  "runFullAggregation dex_http jup_http rnd now w =
     (let w1 = console_log (LogInfo ''[Scheduler] Starting full token aggregation job...'') w;
          fetched = map (\<lambda>symbol.
                      \<lparr>symbol = symbol,
                       dexScreener = settled (fetchDexScreener dex_http rnd symbol),
                       jupiterPrice = settled (fetchJupiterPrice jup_http rnd symbol)\<rparr>)
                    MOCK_TOP_TOKENS;
          rawResults = filter (\<lambda>r. truthy (dexScreener r) \<or> truthy (jupiterPrice r)) fetched;
          aggregatedList = mergeAndCleanTokenData rawResults
      in case setJson w1 now TOKEN_LIST_KEY (Catalog aggregatedList) None of
           Inl e \<Rightarrow> console_log (LogError ''[Scheduler] Full aggregation failed:'') w1
         | Inr w2 \<Rightarrow> console_log (LogInfo ''[Scheduler] Successfully updated tokens'') w2)"

text \<open>\<open>b.volume?.h24 || 0\<close>\<close>

definition volume_or_zero :: "Pair \<Rightarrow> rat" where
  "volume_or_zero p =
     (case volume p of None \<Rightarrow> 0 | Some v \<Rightarrow> (case h24 v of None \<Rightarrow> 0 | Some x \<Rightarrow> x))"

text \<open>
  \<open>solOld && Math.abs(newPrice - solOld.price) / solOld.price > 0.0005\<close>, on the value
  read from the cache. A \<open>NaN\<close> on either side makes the comparison false; a \<open>null\<close>
  price counts as 0; a division by 0 gives \<open>Infinity\<close> for a dividend that is not 0
  and \<open>NaN\<close> otherwise. A stored value that is no TickerState has no \<open>price\<close>. The
  comparison is decided on exact rationals: the doubles of the source can decide the
  other way when the quotient lies within rounding of the threshold.
\<close>

definition price_changed :: "rat option \<Rightarrow> cached_value option \<Rightarrow> bool" where
  "price_changed newPrice solOld =
     (case solOld of
        None \<Rightarrow> False
      | Some (Ticker p) \<Rightarrow>
          (case newPrice of
             None \<Rightarrow> False
           | Some n \<Rightarrow>
               let old = (case p of None \<Rightarrow> 0 | Some x \<Rightarrow> x)
               in if old = 0 then n \<noteq> 0 else \<bar>n - old\<bar> / old > 5 / 10000)
      | Some other \<Rightarrow> False)"

text \<open>
  \<open>runRealtimeTicker\<close>, at clock \<open>now\<close>. There is no \<open>try\<close> in this function: an
  exception leaves it (\<open>Inl\<close>), which happens before any write. \<open>redis.publish\<close> is
  not awaited. Of the two promises of \<open>Promise.all\<close> the fetch is taken to reject first
  when both reject. The run reads the clock once: the time a fetch takes, sleeps of
  retries included, is not added to \<open>now\<close>, and the store answers the write as it
  answered the read. \<open>solDex.length > 0\<close> is the sorted array having a first element
  \<open>latestPair\<close>.
\<close>

definition runRealtimeTicker ::
  "(string \<Rightarrow> nat \<Rightarrow> dex_body axios_result) \<Rightarrow> (nat \<Rightarrow> rat) \<Rightarrow> nat \<Rightarrow> world \<Rightarrow> error + world" where
  "runRealtimeTicker dex_http rnd now w =
     (case fetchDexScreener dex_http rnd ''SOL'' of
        Inl e \<Rightarrow> Inl e
      | Inr solDex \<Rightarrow>
          (case getJson w now ''ticker:SOL'' of
             Inl e \<Rightarrow> Inl e
           | Inr solOld \<Rightarrow>
               (case sort_desc volume_or_zero solDex of
                  [] \<Rightarrow> Inr w
                | latestPair # rest \<Rightarrow>
                    let newPrice = priceUsd latestPair
                    in if price_changed newPrice solOld
                       then
                         (case volume latestPair of
                            None \<Rightarrow> Inl (TypeError ''Cannot read properties of undefined (reading h24)'')
                          | Some v \<Rightarrow>
                              let update = \<lparr>ev_symbol = ''SOL'', ev_price = newPrice,
                                            ev_volume24h = h24 v, ev_timestamp = now\<rparr>;
                                  w1 = console_log (LogInfo ''[Ticker] Price change for SOL detected and published'')
                                         (w\<lparr>published := published w @ [(REALTIME_CHANNEL, update)]\<rparr>)
                              in setJson w1 now ''ticker:SOL'' (Ticker newPrice) (Some 60))
                       else setJson w now ''ticker:SOL'' (Ticker newPrice) (Some 60))))"

section \<open>websocket: the broadcast gateway\<close>

datatype json =
    JNull
  | JBool bool
  | JNum rat
  | JStr string
  | JArr "json list"
  | JObj "(string \<times> json) list"

text \<open>
  The gateway: the sockets connected now, every event delivered to a socket (socket
  id, event name, payload), oldest first, and the console.
\<close>

record gateway =
  clients :: "string list"
  emitted :: "(string \<times> string \<times> json) list"
  gw_console :: "log_entry list"

text \<open>\<open>io.emit(event, data)\<close> sends to every connected socket.\<close>

definition io_emit :: "string \<Rightarrow> json \<Rightarrow> gateway \<Rightarrow> gateway" where
  "io_emit event d g = g\<lparr>emitted := emitted g @ map (\<lambda>c. (c, event, d)) (clients g)\<rparr>"

text \<open>
  The handler of \<open>subscriber.on('message', ...)\<close>. \<open>parse\<close> is \<open>JSON.parse\<close>, \<open>None\<close>
  when it throws a SyntaxError. The log line reads \<open>data.symbol\<close>, which throws a
  TypeError on \<open>null\<close>, after the emit; the same \<open>catch\<close> logs it.
\<close>

definition on_message :: "(string \<Rightarrow> json option) \<Rightarrow> string \<Rightarrow> string \<Rightarrow> gateway \<Rightarrow> gateway" where
  "on_message parse channel message g =
     (if channel = REALTIME_CHANNEL then
        (case parse message of
           None \<Rightarrow> g\<lparr>gw_console := gw_console g @ [LogError ''Error parsing Redis message:'']\<rparr>
         | Some d \<Rightarrow>
             let g1 = io_emit ''priceUpdate'' d g
             in if d = JNull
                then g1\<lparr>gw_console := gw_console g1 @ [LogError ''Error parsing Redis message:'']\<rparr>
                else g1\<lparr>gw_console := gw_console g1 @ [LogInfo ''[WS Push] Broadcasted update'']\<rparr>)
      else g)"

text \<open>The connection handlers: a socket joins the list and leaves it.\<close>

definition on_connection :: "string \<Rightarrow> gateway \<Rightarrow> gateway" where
  "on_connection sid g =
     g\<lparr>clients := clients g @ [sid], gw_console := gw_console g @ [LogInfo ''Client connected'']\<rparr>"

definition on_disconnect :: "string \<Rightarrow> gateway \<Rightarrow> gateway" where
  "on_disconnect sid g =
     g\<lparr>clients := removeAll sid (clients g),
       gw_console := gw_console g @ [LogInfo ''Client disconnected'']\<rparr>"

section \<open>Properties of the retrying fetch\<close>

text \<open>
  When every attempt from \<open>i\<close> on is rejected with a transient status, the trace of
  the loop is: for each attempt but the last, the request, the warning and the sleep,
  in this order; then the last request, whose rejection is rethrown.
\<close>

lemma fetch_loop_trace_all_transient:
  assumes "\<forall>k. i \<le> k \<and> k < retries \<longrightarrow> get k = Rejected (resp k) \<and> isTransientError (resp k)"
    and "i < retries"
  shows "fetch_loop get rnd url config retries i =
           (Inl (AxiosError (resp (retries - 1))),
            concat (map (\<lambda>k. [HttpGet url config, ConsoleWarn, Sleep (2 ^ k * 1000 + rnd k * 500)])
                     [i..<retries - 1])
              @ [HttpGet url config])"
  using assms
proof (induction get rnd url config retries i rule: fetch_loop.induct)
  case (1 get rnd url config retries i)
  have gi: "get i = Rejected (resp i)" and ti: "isTransientError (resp i)"
    using "1.prems" by auto
  show ?case
  proof (cases "i = retries - 1")
    case True
    have "fetch_loop get rnd url config retries i
            = (Inl (AxiosError (resp i)), [HttpGet url config])"
      using gi True "1.prems"(2) by (subst fetch_loop.simps) simp
    then show ?thesis using True by simp
  next
    case False
    then have lt: "i + 1 < retries" using "1.prems"(2) by simp
    have ih: "fetch_loop get rnd url config retries (i + 1) =
           (Inl (AxiosError (resp (retries - 1))),
            concat (map (\<lambda>k. [HttpGet url config, ConsoleWarn, Sleep (2 ^ k * 1000 + rnd k * 500)])
                     [i + 1..<retries - 1])
              @ [HttpGet url config])"
      using "1.IH" [OF "1.prems"(2) gi] False ti "1.prems"(1) lt by simp
    have up: "[i..<retries - 1] = i # [i + 1..<retries - 1]"
      using lt by (simp add: upt_conv_Cons)
    have "fetch_loop get rnd url config retries i
            = (fst (fetch_loop get rnd url config retries (i + 1)),
               [HttpGet url config, ConsoleWarn, Sleep (2 ^ i * 1000 + rnd i * 500)]
                 @ snd (fetch_loop get rnd url config retries (i + 1)))"
      using gi ti False "1.prems"(2) by (subst fetch_loop.simps) (simp split: prod.splits)
    then show ?thesis
      unfolding ih up by simp
  qed
qed

lemma attempts_retry_trace:
  "attempts (concat (map (\<lambda>k. [HttpGet u c, ConsoleWarn, Sleep (f k)]) ks) @ [HttpGet u c])
     = Suc (length ks)"
  by (induction ks) simp_all

lemma delays_retry_trace:
  "delays (concat (map (\<lambda>k. [HttpGet u c, ConsoleWarn, Sleep (f k)]) ks) @ [HttpGet u c])
     = map f ks"
  by (induction ks) simp_all

lemma backoff_mono:
  assumes "\<forall>k. 0 \<le> rnd k \<and> rnd k < (1::rat)" and "j < (k::nat)"
  shows "2 ^ j * 1000 + rnd j * 500 < 2 ^ k * 1000 + rnd k * (500::rat)"
proof -
  have "(2::rat) ^ Suc j \<le> 2 ^ k" using assms(2) by (intro power_increasing) auto
  then have a: "(2::rat) * 2 ^ j \<le> 2 ^ k" by simp
  have b: "(1::rat) \<le> 2 ^ j" by simp
  have c: "rnd j < 1" "0 \<le> rnd k" using assms(1) by auto
  show ?thesis using a b c by linarith
qed

lemma sorted_backoff:
  assumes "\<forall>k. 0 \<le> rnd k \<and> rnd k < (1::rat)"
  shows "sorted (map (\<lambda>k. 2 ^ k * 1000 + rnd k * (500::rat)) [0..<n])"
  unfolding sorted_map
  by (rule sorted_wrt_mono_rel [of _ "(<)"])
     (auto simp: less_imp_le backoff_mono [OF assms] intro: sorted_wrt_upt[unfolded])

text \<open>
  Claim C6. When every attempt fails with a transient error (HTTP 429 or 500 and above),
  \<open>fetchWithRetry\<close> makes exactly \<open>retries\<close> attempts. After attempt \<open>i\<close> (counted from 0)
  and before attempt \<open>i + 1\<close> it sleeps \<open>2^i * 1000\<close> ms plus the jitter
  \<open>Math.random() * 500\<close>, which lies in \<open>[0, 500)\<close>: the trace is request, warning, sleep
  for each attempt but the last, then the last request. The delays are non-decreasing
  whatever the jitter, and the error of the last attempt is the one thrown to the
  caller. With no attempt configured nothing is requested. The sum of base and jitter
  is exact here; the bound is stated on the jitter.
\<close>

theorem retry_exhausts_on_transient:
  assumes transient: "\<forall>k<retries. \<exists>s. get k = Rejected (Some s) \<and> (s = 429 \<or> s \<ge> 500)"
    and jitter: "\<forall>k. 0 \<le> rnd k \<and> rnd k < 1"
  shows "(retries = 0 \<longrightarrow> fetchWithRetry get rnd url config retries = (Inr None, []))
       \<and> (0 < retries \<longrightarrow>
            (\<exists>s. get (retries - 1) = Rejected (Some s)
               \<and> fetchWithRetry get rnd url config retries =
                   (Inl (AxiosError (Some s)),
                    concat (map (\<lambda>i. [HttpGet url config, ConsoleWarn,
                                       Sleep (2 ^ i * 1000 + rnd i * 500)])
                             [0..<retries - 1])
                      @ [HttpGet url config])))
       \<and> attempts (snd (fetchWithRetry get rnd url config retries)) = retries
       \<and> delays (snd (fetchWithRetry get rnd url config retries))
           = map (\<lambda>i. 2 ^ i * 1000 + rnd i * 500) [0..<retries - 1]
       \<and> (\<forall>i<retries - 1. 0 \<le> rnd i * 500 \<and> rnd i * 500 < 500)
       \<and> sorted (delays (snd (fetchWithRetry get rnd url config retries)))"
proof (cases "retries = 0")
  case True
  have "fetch_loop get rnd url config 0 0 = (Inr None, [])"
    by (subst fetch_loop.simps) simp
  then show ?thesis using True by (simp add: fetchWithRetry_def)
next
  case False
  define resp where "resp k = (case get k of Rejected r \<Rightarrow> r | Resolved d \<Rightarrow> None)" for k
  have all: "\<forall>k. 0 \<le> k \<and> k < retries \<longrightarrow> get k = Rejected (resp k) \<and> isTransientError (resp k)"
    using transient by (auto simp: resp_def isTransientError_def)
  have pos: "0 < retries" using False by simp
  have tr: "fetchWithRetry get rnd url config retries =
              (Inl (AxiosError (resp (retries - 1))),
               concat (map (\<lambda>i. [HttpGet url config, ConsoleWarn,
                                  Sleep (2 ^ i * 1000 + rnd i * 500)])
                        [0..<retries - 1])
                 @ [HttpGet url config])"
    unfolding fetchWithRetry_def by (rule fetch_loop_trace_all_transient [OF all pos])
  obtain s where s: "get (retries - 1) = Rejected (Some s)"
    using transient pos by (metis diff_less zero_less_one)
  have rs: "resp (retries - 1) = Some s" using s by (simp add: resp_def)
  have a: "attempts (snd (fetchWithRetry get rnd url config retries)) = retries"
    unfolding tr using pos by (simp add: attempts_retry_trace)
  have d: "delays (snd (fetchWithRetry get rnd url config retries))
             = map (\<lambda>i. 2 ^ i * 1000 + rnd i * 500) [0..<retries - 1]"
    unfolding tr by (simp add: delays_retry_trace)
  have b: "\<forall>i<retries - 1. 0 \<le> rnd i * 500 \<and> rnd i * 500 < 500"
    using jitter by auto
  have so: "sorted (delays (snd (fetchWithRetry get rnd url config retries)))"
    unfolding d by (rule sorted_backoff [OF jitter])
  have e: "\<exists>s. get (retries - 1) = Rejected (Some s)
               \<and> fetchWithRetry get rnd url config retries =
                   (Inl (AxiosError (Some s)),
                    concat (map (\<lambda>i. [HttpGet url config, ConsoleWarn,
                                       Sleep (2 ^ i * 1000 + rnd i * 500)])
                             [0..<retries - 1])
                      @ [HttpGet url config])"
    using s tr rs by auto
  show ?thesis using False e a d b so by blast
qed

text \<open>
  Three attempts answered 503, jitter 250 ms: request, sleep 1250, request, sleep 2250,
  request, then the 503.
\<close>

theorem retry_exhausts_on_transient_witness:
  "fetchWithRetry (\<lambda>k. (Rejected (Some 503) :: unit axios_result)) (\<lambda>k. 1 / 2) ''u'' [] 3
     = (Inl (AxiosError (Some 503)),
        [HttpGet ''u'' [], ConsoleWarn, Sleep 1250,
         HttpGet ''u'' [], ConsoleWarn, Sleep 2250,
         HttpGet ''u'' []])
   \<and> attempts (snd (fetchWithRetry (\<lambda>k. (Rejected (Some 503) :: unit axios_result))
                       (\<lambda>k. 1 / 2) ''u'' [] 3)) = 3
   \<and> delays (snd (fetchWithRetry (\<lambda>k. (Rejected (Some 503) :: unit axios_result))
                       (\<lambda>k. 1 / 2) ''u'' [] 3)) = [1250, 2250]
   \<and> sorted (delays (snd (fetchWithRetry (\<lambda>k. (Rejected (Some 503) :: unit axios_result))
                       (\<lambda>k. 1 / 2) ''u'' [] 3)))"
proof -
  have h1: "\<forall>k<3. \<exists>s. (\<lambda>k. (Rejected (Some 503) :: unit axios_result)) k = Rejected (Some s)
              \<and> (s = 429 \<or> s \<ge> 500)" by simp
  have h2: "\<forall>k. (0::rat) \<le> (\<lambda>k::nat. 1 / 2) k \<and> (\<lambda>k::nat. 1 / 2) k < (1::rat)" by simp
  show ?thesis
    using retry_exhausts_on_transient [OF h1 h2, of "''u''" "[]"]
    by (simp add: upt_rec)
qed

text \<open>
  Claim C7. When the first attempt fails with an error that is not transient (no HTTP
  response at all, or a status other than 429 below 500), \<open>fetchWithRetry\<close> throws that
  error at once: one attempt, no delay.
\<close>

theorem no_retry_on_non_transient:
  assumes "0 < retries" and "get 0 = Rejected resp"
    and "resp = None \<or> (\<exists>s. resp = Some s \<and> s \<noteq> 429 \<and> s < 500)"
  shows "fetchWithRetry get rnd url config retries = (Inl (AxiosError resp), [HttpGet url config])
       \<and> attempts (snd (fetchWithRetry get rnd url config retries)) = 1
       \<and> delays (snd (fetchWithRetry get rnd url config retries)) = []"
proof -
  have "fetchWithRetry get rnd url config retries = (Inl (AxiosError resp), [HttpGet url config])"
    using assms unfolding fetchWithRetry_def
    by (subst fetch_loop.simps) (auto simp: isTransientError_def)
  then show ?thesis by simp
qed

text \<open>A 404 and a network error, each on the first of three attempts.\<close>

theorem no_retry_on_non_transient_witness:
  "(0::nat) < 3
   \<and> (\<lambda>k. (Rejected (Some 404) :: unit axios_result)) 0 = Rejected (Some 404)
   \<and> fetchWithRetry (\<lambda>k. (Rejected (Some 404) :: unit axios_result)) (\<lambda>k. 0) ''u'' [] 3
       = (Inl (AxiosError (Some 404)), [HttpGet ''u'' []])
   \<and> fetchWithRetry (\<lambda>k. (Rejected None :: unit axios_result)) (\<lambda>k. 0) ''u'' [] 3
       = (Inl (AxiosError None), [HttpGet ''u'' []])"
proof -
  have a: "(0::nat) < 3" by simp
  have b: "(\<lambda>k. (Rejected (Some 404) :: unit axios_result)) 0 = Rejected (Some 404)" by simp
  have c: "Some (404::nat) = None \<or> (\<exists>s. Some (404::nat) = Some s \<and> s \<noteq> 429 \<and> s < 500)" by simp
  have b': "(\<lambda>k. (Rejected None :: unit axios_result)) 0 = Rejected None" by simp
  have c': "(None :: nat option) = None \<or> (\<exists>s. (None :: nat option) = Some s \<and> s \<noteq> 429 \<and> s < 500)" by simp
  show ?thesis
    using a b no_retry_on_non_transient [OF a b c, of "\<lambda>k. 0" "''u''" "[]"]
      no_retry_on_non_transient [OF a b' c', of "\<lambda>k. 0" "''u''" "[]"]
    by simp
qed

section \<open>Properties of the GeckoTerminal fetcher\<close>

text \<open>
  Claim C10. \<open>fetchGeckoTerminal\<close> throws on every call and issues no HTTP request:
  with the key unset (or empty) it throws the missing-key Error, and with a key set
  the guard reads the unbound identifier \<open>GCHO_API_KEY\<close>, a ReferenceError. No input
  reaches the return of pools and related data.
\<close>

theorem fetchGeckoTerminal_always_throws:
  "fetchGeckoTerminal env_key http rnd tok =
     (Inl (if env_key = None \<or> env_key = Some [] then JsError missing_key_message
           else ReferenceError ''GCHO_API_KEY''), [])"
  by (cases env_key) (auto simp: fetchGeckoTerminal_def module_scope_def resolve_def falsy_def)

section \<open>Properties of the merge\<close>

text \<open>
  \<open>mergeAndCleanTokenData\<close> returns the same catalog for every input: the three
  records SOL, JUP and BONK, in this order. It holds one record for each of these
  symbols and none for any other.
\<close>

lemma merge_returns_fixed_catalog:
  "mergeAndCleanTokenData raw = mergeAndCleanTokenData raw'
   \<and> map token_id (mergeAndCleanTokenData raw) = [''SOL'', ''JUP'', ''BONK'']
   \<and> length (filter (\<lambda>r. token_id r = s) (mergeAndCleanTokenData raw))
      = (if s \<in> set [''SOL'', ''JUP'', ''BONK''] then 1 else 0)"
  by (simp add: mergeAndCleanTokenData_def)

text \<open>
  Claim C4, evaluated on the code. The input of a full aggregation in which every
  tracked symbol has its DexScreener source present names four symbols; the catalog
  has three records and none for WEN. An input for WEN alone gives no record for WEN
  either, and the empty input gives three records.
\<close>

theorem merge_drops_tracked_symbol:
  "map token_id (mergeAndCleanTokenData
       (map (\<lambda>s. \<lparr>symbol = s, dexScreener = Some [], jupiterPrice = None\<rparr>) MOCK_TOP_TOKENS))
     = [''SOL'', ''JUP'', ''BONK'']
   \<and> length (filter (\<lambda>r. token_id r = ''WEN'') (mergeAndCleanTokenData
       (map (\<lambda>s. \<lparr>symbol = s, dexScreener = Some [], jupiterPrice = None\<rparr>) MOCK_TOP_TOKENS))) = 0
   \<and> length (filter (\<lambda>r. token_id r = ''WEN'') (mergeAndCleanTokenData
       [\<lparr>symbol = ''WEN'', dexScreener = Some [], jupiterPrice = None\<rparr>])) = 0
   \<and> length (mergeAndCleanTokenData []) = 3"
  by (simp add: mergeAndCleanTokenData_def)

section \<open>Properties of the token list endpoint\<close>

text \<open>
  Claim C8. When the view cache misses for the query and the catalog key holds
  nothing (never stored, or expired) or holds an empty catalog, the endpoint answers
  503 with the error body that asks to try again shortly, and leaves the store as it
  was: no view is cached under the key of the query.
\<close>

theorem empty_catalog_gives_503:
  assumes miss: "getJson w now (cache_key q) = Inr None"
    and empty: "getJson w now TOKEN_LIST_KEY = Inr None
              \<or> getJson w now TOKEN_LIST_KEY = Inr (Some (Catalog []))"
  shows "getTokenList q now w =
           (\<lparr>status = 503,
             body = ErrorBody ''Token list is currently being aggregated. Try again shortly.''\<rparr>, w)
       \<and> getJson (snd (getTokenList q now w)) now (cache_key q) = Inr None"
  using assms by (auto simp: getTokenList_def unavailable_def)

text \<open>An empty store with the default query, and a stored empty catalog with limit 10.\<close>

theorem empty_catalog_gives_503_witness:
  "getTokenList \<lparr>q_limit = None, q_sortBy = None, q_filterBy = None, q_nextCursor = None\<rparr> 0
      \<lparr>store = Map.empty, reachable = True, published = [], console = []\<rparr>
     = (\<lparr>status = 503,
         body = ErrorBody ''Token list is currently being aggregated. Try again shortly.''\<rparr>,
        \<lparr>store = Map.empty, reachable = True, published = [], console = []\<rparr>)
   \<and> getTokenList \<lparr>q_limit = Some ''10'', q_sortBy = None, q_filterBy = None, q_nextCursor = None\<rparr> 7
      \<lparr>store = [TOKEN_LIST_KEY \<mapsto> (Catalog [], 30)], reachable = True, published = [], console = []\<rparr>
     = (\<lparr>status = 503,
         body = ErrorBody ''Token list is currently being aggregated. Try again shortly.''\<rparr>,
        \<lparr>store = [TOKEN_LIST_KEY \<mapsto> (Catalog [], 30)], reachable = True, published = [], console = []\<rparr>)"
proof -
  have a: "getJson \<lparr>store = Map.empty, reachable = True, published = [], console = []\<rparr> 0
             (cache_key \<lparr>q_limit = None, q_sortBy = None, q_filterBy = None, q_nextCursor = None\<rparr>)
           = Inr None"
    by (simp add: getJson_def)
  have b: "getJson \<lparr>store = Map.empty, reachable = True, published = [], console = []\<rparr> 0 TOKEN_LIST_KEY = Inr None
         \<or> getJson \<lparr>store = Map.empty, reachable = True, published = [], console = []\<rparr> 0 TOKEN_LIST_KEY
              = Inr (Some (Catalog []))"
    by (simp add: getJson_def)
  have c: "getJson \<lparr>store = [TOKEN_LIST_KEY \<mapsto> (Catalog [], 30)], reachable = True, published = [], console = []\<rparr> 7
             (cache_key \<lparr>q_limit = Some ''10'', q_sortBy = None, q_filterBy = None, q_nextCursor = None\<rparr>)
           = Inr None"
    by (simp add: getJson_def cache_key_def TOKEN_LIST_KEY_def)
  have d: "getJson \<lparr>store = [TOKEN_LIST_KEY \<mapsto> (Catalog [], 30)], reachable = True, published = [], console = []\<rparr> 7 TOKEN_LIST_KEY = Inr None
         \<or> getJson \<lparr>store = [TOKEN_LIST_KEY \<mapsto> (Catalog [], 30)], reachable = True, published = [], console = []\<rparr> 7 TOKEN_LIST_KEY
              = Inr (Some (Catalog []))"
    by (simp add: getJson_def)
  show ?thesis
    using empty_catalog_gives_503 [OF a b] empty_catalog_gives_503 [OF c d] by simp
qed

text \<open>
  The cursor survives the round trip: the string \<open>toString\<close> writes for an index is
  read back by \<open>parseInt\<close> as that index.
\<close>

lemma digit_char_props:
  assumes "d < 10"
  shows "is_digit (digit_char d)" and "digit_val (digit_char d) = d"
    and "\<not> is_ws (digit_char d)" and "digit_char d \<noteq> CHR ''-''" and "digit_char d \<noteq> CHR ''+''"
proof -
  have "d = 0 \<or> d = 1 \<or> d = 2 \<or> d = 3 \<or> d = 4 \<or> d = 5 \<or> d = 6 \<or> d = 7 \<or> d = 8 \<or> d = 9"
    using assms by arith
  then show "is_digit (digit_char d)" and "digit_val (digit_char d) = d"
    and "\<not> is_ws (digit_char d)" and "digit_char d \<noteq> CHR ''-''" and "digit_char d \<noteq> CHR ''+''"
    by (auto simp: digit_char_def is_digit_def digit_val_def is_ws_def)
qed

lemma show_nat_digits: "show_nat n \<noteq> [] \<and> (\<forall>c \<in> set (show_nat n). is_digit c)"
proof (induction n rule: show_nat.induct)
  case (1 n)
  show ?case
  proof (cases "n < 10")
    case True
    then show ?thesis by (subst (1 2) show_nat.simps) (simp add: digit_char_props)
  next
    case False
    then show ?thesis using "1.IH"
      by (subst (1 2) show_nat.simps) (simp add: digit_char_props)
  qed
qed

lemma digits_val_snoc: "digits_val (ds @ [c]) = 10 * digits_val ds + digit_val c"
  by (simp add: digits_val_def)

lemma digits_val_show_nat: "digits_val (show_nat n) = n"
proof (induction n rule: show_nat.induct)
  case (1 n)
  show ?case
  proof (cases "n < 10")
    case True
    then show ?thesis
      by (subst show_nat.simps) (simp add: digits_val_def digit_char_props)
  next
    case False
    then have "digits_val (show_nat (n div 10)) = n div 10" using "1.IH" by simp
    then show ?thesis using False
      by (subst show_nat.simps) (simp add: digits_val_snoc digit_char_props)
  qed
qed

lemma parseInt_show_nat: "parseInt (show_nat n) = Some (int n)"
proof -
  obtain c cs where s: "show_nat n = c # cs"
    using show_nat_digits [of n] by (cases "show_nat n") auto
  have d: "is_digit c" using show_nat_digits [of n] s by simp
  have nws: "\<not> is_ws c" and nm: "c \<noteq> CHR ''-''" and np: "c \<noteq> CHR ''+''"
    using d by (auto simp: is_digit_def is_ws_def)
  have tw: "takeWhile is_digit (show_nat n) = show_nat n"
    using show_nat_digits [of n] by (simp add: takeWhile_eq_all_conv)
  have "parseInt (c # cs) = Some (int (digits_val (c # cs)))"
    using nws nm np tw s by (simp add: parseInt_def Let_def)
  then show ?thesis using s digits_val_show_nat [of n] by simp
qed

lemma parseInt_toString: "parseInt (toString (int n)) = Some (int n)"
  by (simp add: toString_def parseInt_show_nat)

text \<open>For indices that are natural numbers, \<open>slice\<close> is \<open>take\<close> after \<open>drop\<close>.\<close>

lemma slice_nat: "slice xs (Some (int c)) (Some (int c + int L)) = take L (drop c xs)"
proof (cases "c \<le> length xs")
  case True
  have "min (nat (int c + int L)) (length xs) - c = min L (length xs - c)" by auto
  then show ?thesis using True
    by (simp add: slice_def rel_index_def min_absorb1 min_def)
next
  case False
  then show ?thesis by (simp add: slice_def rel_index_def)
qed

text \<open>
  A request that misses the view cache, with a limit \<open>L\<close> and a cursor \<open>c\<close>, answers
  the records \<open>c\<close> to \<open>c + L\<close> of the catalog sorted by descending \<open>sortBy\<close>, and the
  cursor \<open>c + L\<close> when records remain.
\<close>

lemma page_on_cache_miss:
  assumes catalog: "getJson w now TOKEN_LIST_KEY = Inr (Some (Catalog xs))"
    and nonempty: "xs \<noteq> []"
    and miss: "getJson w now (cache_key q) = Inr None"
    and limit: "q_limit q = Some (toString (int L))"
    and cursor: "q_nextCursor q = Some (toString (int c))"
  shows "fst (getTokenList q now w) =
           \<lparr>status = 200,
            body = ViewBody
              \<lparr>data = take L (drop c (sort_desc (sort_field
                         (case q_sortBy q of None \<Rightarrow> ''volume24h'' | Some s \<Rightarrow> s)) xs)),
               pagination_limit = Some (int L),
               pagination_nextCursor =
                 (if c + L < length xs then Some (toString (int (c + L))) else None),
               cached = False, cacheTime = now\<rparr>\<rparr>"
proof -
  have r: "reachable w" using miss by (auto simp: getJson_def split: if_splits)
  have ne: "toString (int c) \<noteq> []"
    using show_nat_digits [of c] by (simp add: toString_def)
  have len: "length (sort_desc f xs) = length xs" for f :: "TokenRecord \<Rightarrow> rat"
    by (simp add: sort_desc_def)
  show ?thesis
    using catalog nonempty miss limit cursor r ne
    by (simp add: getTokenList_def setJson_def Let_def parseInt_toString js_add_def slice_nat len)
qed

text \<open>Two such pages, at cursors 0 and \<open>L\<close>, make the first \<open>2 * L\<close> records.\<close>

lemma two_pages_make_a_prefix:
  "take L xs @ take L (drop L xs) = take (min (2 * L) (length xs)) xs"
proof -
  have "take L xs @ take L (drop L xs) = take (L + L) xs"
    by (simp add: take_add)
  moreover have "take (L + L) xs = take (min (L + L) (length xs)) xs"
    by (cases "L + L \<le> length xs") (simp_all add: min_def)
  ultimately show ?thesis by (simp add: mult_2)
qed

lemma sorted_mock: "sort_desc (sort_field ''volume24h'') (mergeAndCleanTokenData [])
   = [\<lparr>token_id = ''SOL'', price = 15025 / 100, volume24h = 1500000000,
       priceChange1h = 5 / 10, priceChange24h = 72 / 10\<rparr>,
      \<lparr>token_id = ''BONK'', price = 25 / 1000000, volume24h = 120000000,
       priceChange1h = 21 / 10, priceChange24h = 155 / 10\<rparr>,
      \<lparr>token_id = ''JUP'', price = 85 / 100, volume24h = 50000000,
       priceChange1h = - (12 / 10), priceChange24h = 31 / 10\<rparr>]"
  by (simp add: sort_desc_def sort_field_def mergeAndCleanTokenData_def)

lemma merge_nonempty: "mergeAndCleanTokenData raw \<noteq> []"
  by (simp add: mergeAndCleanTokenData_def)

lemma parseInt_examples: "parseInt ''1'' = Some 1" "parseInt ''0'' = Some 0" "parseInt ''20'' = Some 20"
  "parseInt '' -12ab'' = Some (-12)" "parseInt ''abc'' = None" "parseInt '''' = None"
  by (simp_all add: parseInt_def is_ws_def is_digit_def digits_val_def digit_val_def)

lemma toString_examples: "toString 1 = ''1''" "toString 120 = ''120''" "toString (-4) = ''-4''"
  by (simp_all add: toString_def show_nat.simps digit_char_def)

text \<open>
  Claim C2, evaluated on the code. The catalog of the merge is stored; with limit 1
  the first request (cursor 0) answers SOL and the cursor 1; one second later the
  request with cursor 1 and the same limit, sortBy and filterBy hits the view cached
  by the first one, because the cache key leaves the cursor out: it answers SOL
  again (\<open>cached = True\<close>), not BONK. The two pages are equal, not disjoint, and their
  concatenation is not the first two records of the sorted catalog.
\<close>

theorem second_page_served_from_first_page_cache:
  "fst (getTokenList \<lparr>q_limit = Some ''1'', q_sortBy = None, q_filterBy = None, q_nextCursor = Some ''0''\<rparr> 0
          \<lparr>store = [TOKEN_LIST_KEY \<mapsto> (Catalog (mergeAndCleanTokenData []), 300)],
           reachable = True, published = [], console = []\<rparr>)
     = \<lparr>status = 200,
        body = ViewBody \<lparr>data = take 1 (sort_desc (sort_field ''volume24h'') (mergeAndCleanTokenData [])),
                         pagination_limit = Some 1, pagination_nextCursor = Some ''1'',
                         cached = False, cacheTime = 0\<rparr>\<rparr>
   \<and> fst (getTokenList \<lparr>q_limit = Some ''1'', q_sortBy = None, q_filterBy = None, q_nextCursor = Some ''1''\<rparr> 1
          (snd (getTokenList \<lparr>q_limit = Some ''1'', q_sortBy = None, q_filterBy = None, q_nextCursor = Some ''0''\<rparr> 0
                  \<lparr>store = [TOKEN_LIST_KEY \<mapsto> (Catalog (mergeAndCleanTokenData []), 300)],
                   reachable = True, published = [], console = []\<rparr>)))
     = \<lparr>status = 200,
        body = ViewBody \<lparr>data = take 1 (sort_desc (sort_field ''volume24h'') (mergeAndCleanTokenData [])),
                         pagination_limit = Some 1, pagination_nextCursor = Some ''1'',
                         cached = True, cacheTime = 0\<rparr>\<rparr>
   \<and> map token_id (take 1 (sort_desc (sort_field ''volume24h'') (mergeAndCleanTokenData []))
                     @ take 1 (sort_desc (sort_field ''volume24h'') (mergeAndCleanTokenData [])))
       = [''SOL'', ''SOL'']
   \<and> map token_id (take 2 (sort_desc (sort_field ''volume24h'') (mergeAndCleanTokenData [])))
       = [''SOL'', ''BONK'']"
  by (simp add: sorted_mock merge_nonempty getTokenList_def getJson_def setJson_def cache_key_def TOKEN_LIST_KEY_def
       CACHE_TTL_def console_log_def Let_def parseInt_examples toString_examples slice_def rel_index_def js_add_def)

section \<open>Properties of the scheduler\<close>

text \<open>
  Claim C1, evaluated on the code. A successful aggregation at time 0 stores the
  catalog with the default expiry of \<open>setJson\<close>, 30 seconds, since \<open>runFullAggregation\<close>
  passes no ttl. At time 30 the catalog is gone, well before the next cycle
  (\<open>AGGREGATION_PERIOD\<close>), and the endpoint answers 503.
\<close>

theorem catalog_expires_before_next_cycle:
  "store (runFullAggregation (\<lambda>url k. Resolved \<lparr>pairs = Some []\<rparr>) (\<lambda>url k. Resolved [])
            (\<lambda>k. 0) 0 \<lparr>store = Map.empty, reachable = True, published = [], console = []\<rparr>)
       TOKEN_LIST_KEY = Some (Catalog (mergeAndCleanTokenData []), 30)
   \<and> getJson (runFullAggregation (\<lambda>url k. Resolved \<lparr>pairs = Some []\<rparr>) (\<lambda>url k. Resolved [])
            (\<lambda>k. 0) 0 \<lparr>store = Map.empty, reachable = True, published = [], console = []\<rparr>)
       30 TOKEN_LIST_KEY = Inr None
   \<and> (30::nat) < AGGREGATION_PERIOD
   \<and> fst (getTokenList \<lparr>q_limit = None, q_sortBy = None, q_filterBy = None, q_nextCursor = None\<rparr> 30
        (runFullAggregation (\<lambda>url k. Resolved \<lparr>pairs = Some []\<rparr>) (\<lambda>url k. Resolved [])
            (\<lambda>k. 0) 0 \<lparr>store = Map.empty, reachable = True, published = [], console = []\<rparr>))
       = unavailable"
  by (simp add: runFullAggregation_def setJson_def getJson_def console_log_def
        CACHE_TTL_SECONDS_def AGGREGATION_PERIOD_def mergeAndCleanTokenData_def Let_def
        getTokenList_def cache_key_def TOKEN_LIST_KEY_def)

text \<open>The same for every successful run: the expiry is the clock plus 30 seconds.\<close>

lemma full_aggregation_ttl:
  assumes "reachable w"
  shows "store (runFullAggregation dex_http jup_http rnd now w) TOKEN_LIST_KEY
           = Some (Catalog (mergeAndCleanTokenData []), now + CACHE_TTL_SECONDS)"
    and "getJson (runFullAggregation dex_http jup_http rnd now w) (now + CACHE_TTL_SECONDS) TOKEN_LIST_KEY
           = Inr None"
  using assms
  by (simp_all add: runFullAggregation_def setJson_def getJson_def console_log_def
        mergeAndCleanTokenData_def Let_def)

text \<open>
  \<open>runFullAggregation\<close> catches: when the store rejects the write, the job logs the
  failure and returns. \<open>runRealtimeTicker\<close> has no such handler.
\<close>

lemma full_aggregation_logs_failure:
  assumes "\<not> reachable w"
  shows "runFullAggregation dex_http jup_http rnd now w
           = w\<lparr>console := console w @
                 [LogInfo ''[Scheduler] Starting full token aggregation job...'',
                  LogError ''[Scheduler] Full aggregation failed:'']\<rparr>"
  using assms
  by (simp add: runFullAggregation_def setJson_def console_log_def Let_def)

text \<open>
  Claim C3, evaluated on the code. A fetch that fails with 503 on all three attempts,
  a cache read that is rejected, and a top pair without a \<open>volume\<close> object when a
  change is detected: in each case the exception leaves \<open>runRealtimeTicker\<close>. The job
  neither catches nor logs it.
\<close>

theorem ticker_failure_escapes_job:
  "runRealtimeTicker (\<lambda>url k. Rejected (Some 503)) (\<lambda>k. 0) 0
      \<lparr>store = Map.empty, reachable = True, published = [], console = []\<rparr>
     = Inl (AxiosError (Some 503))
   \<and> runRealtimeTicker (\<lambda>url k. Resolved \<lparr>pairs = Some []\<rparr>) (\<lambda>k. 0) 0
      \<lparr>store = Map.empty, reachable = False, published = [], console = []\<rparr>
     = Inl CacheError
   \<and> runRealtimeTicker
        (\<lambda>url k. Resolved \<lparr>pairs = Some [\<lparr>priceUsd = Some 101, volume = None\<rparr>]\<rparr>) (\<lambda>k. 0) 5
      \<lparr>store = [''ticker:SOL'' \<mapsto> (Ticker (Some 100), 60)], reachable = True,
       published = [], console = []\<rparr>
     = Inl (TypeError ''Cannot read properties of undefined (reading h24)'')"
  by (simp add: runRealtimeTicker_def fetchDexScreener_def fetchWithRetry_def fetch_loop.simps
        isTransientError_def getJson_def or_empty_def Let_def sort_desc_def price_changed_def)

text \<open>
  A change detected on a top pair that has no \<open>volume\<close> object throws: the event reads
  \<open>latestPair.volume.h24\<close>, where the comparator reads \<open>b.volume?.h24\<close>. Nothing is
  published and nothing is written.
\<close>

lemma ticker_throws_without_volume:
  assumes "fetchDexScreener dex_http rnd ''SOL'' = Inr solDex"
    and "sort_desc volume_or_zero solDex = latestPair # rest"
    and "volume latestPair = None"
    and "getJson w now ''ticker:SOL'' = Inr prior"
    and "price_changed (priceUsd latestPair) prior"
  shows "runRealtimeTicker dex_http rnd now w
           = Inl (TypeError ''Cannot read properties of undefined (reading h24)'')"
  using assms by (simp add: runRealtimeTicker_def Let_def)

text \<open>
  Claim C5, evaluated on the code. The prior TickerState is 100.00 and the fetch gives
  one pair with price 100.10 and no \<open>volume\<close> object. The change of 0.1% is above the
  threshold, so an event is due; building it throws a TypeError before \<open>redis.publish\<close>
  and before \<open>setJson\<close>. No event is published and the TickerState stays 100.00, where
  one event with price 100.10 and a TickerState of 100.10 are claimed.
\<close>

theorem ticker_throws_on_pair_without_volume:
  "runRealtimeTicker
      (\<lambda>url k. Resolved \<lparr>pairs = Some [\<lparr>priceUsd = Some (10010 / 100), volume = None\<rparr>]\<rparr>)
      (\<lambda>k. 0) 5
      \<lparr>store = [''ticker:SOL'' \<mapsto> (Ticker (Some 100), 60)], reachable = True,
       published = [], console = []\<rparr>
     = Inl (TypeError ''Cannot read properties of undefined (reading h24)'')"
  by (simp add: runRealtimeTicker_def fetchDexScreener_def fetchWithRetry_def fetch_loop.simps
        getJson_def or_empty_def Let_def sort_desc_def price_changed_def)

text \<open>
  On a top pair that carries a \<open>volume\<close> object the cycle runs to its end. With a price
  \<open>new\<close> and a prior price, when there is one, that is a number other than 0, an event
  is published if and only if a prior TickerState exists and
  \<open>|new - old| / old > 0.0005\<close>, and the TickerState becomes \<open>new\<close> with an expiry of 60
  seconds in both cases. The comparison is the one of \<open>price_changed\<close>, on exact
  rationals, and the times are those of the one clock reading of the model.
\<close>

lemma ticker_cycle_with_volume:
  assumes fetch: "fetchDexScreener dex_http rnd ''SOL'' = Inr solDex"
    and latest: "sort_desc volume_or_zero solDex = latestPair # rest"
    and vol: "volume latestPair = Some v"
    and newp: "priceUsd latestPair = Some new"
    and prior: "getJson w now ''ticker:SOL'' = Inr prior"
    and wf: "prior = None \<or> (\<exists>old. prior = Some (Ticker (Some old)) \<and> old \<noteq> 0)"
  shows "\<exists>w'. runRealtimeTicker dex_http rnd now w = Inr w'
        \<and> published w' = published w @
            (if (\<exists>old. prior = Some (Ticker (Some old)) \<and> \<bar>new - old\<bar> / old > 5 / 10000)
             then [(REALTIME_CHANNEL,
                    \<lparr>ev_symbol = ''SOL'', ev_price = Some new, ev_volume24h = h24 v,
                     ev_timestamp = now\<rparr>)]
             else [])
        \<and> store w' = (store w)(''ticker:SOL'' \<mapsto> (Ticker (Some new), now + 60))"
proof -
  have r: "reachable w" using prior by (auto simp: getJson_def split: if_splits)
  have pc: "price_changed (Some new) prior
              = (\<exists>old. prior = Some (Ticker (Some old)) \<and> \<bar>new - old\<bar> / old > 5 / 10000)"
    using wf by (auto simp: price_changed_def)
  show ?thesis
  proof (cases "price_changed (Some new) prior")
    case True
    then show ?thesis
      using fetch latest vol newp prior r pc
      by (simp add: runRealtimeTicker_def setJson_def console_log_def Let_def)
  next
    case False
    then show ?thesis
      using fetch latest vol newp prior r pc
      by (simp add: runRealtimeTicker_def setJson_def console_log_def Let_def)
  qed
qed

lemma fetch_ok:
  "fetchDexScreener (\<lambda>url k. Resolved \<lparr>pairs = Some ps\<rparr>) (\<lambda>k. 0) ''SOL'' = Inr ps"
  by (simp add: fetchDexScreener_def fetchWithRetry_def fetch_loop.simps or_empty_def)

text \<open>
  A move from 100.00 to 100.10 and on to 100.105, volume present: the first step
  publishes one event with price 100.10; the second publishes none, and the
  TickerState becomes 100.105. The first fetch returns two pairs, and the one with the
  higher volume is taken.
\<close>

lemma ticker_cycle_with_volume_example:
  "(\<exists>w'. runRealtimeTicker
            (\<lambda>url k. Resolved \<lparr>pairs = Some
               [\<lparr>priceUsd = Some 99, volume = Some \<lparr>h24 = Some 10\<rparr>\<rparr>,
                \<lparr>priceUsd = Some (10010 / 100), volume = Some \<lparr>h24 = Some 1000\<rparr>\<rparr>]\<rparr>)
            (\<lambda>k. 0) 5
            \<lparr>store = [''ticker:SOL'' \<mapsto> (Ticker (Some 100), 60)], reachable = True,
             published = [], console = []\<rparr> = Inr w'
        \<and> published w' =
            [(REALTIME_CHANNEL, \<lparr>ev_symbol = ''SOL'', ev_price = Some (10010 / 100),
                                 ev_volume24h = Some 1000, ev_timestamp = 5\<rparr>)]
        \<and> store w' = [''ticker:SOL'' \<mapsto> (Ticker (Some (10010 / 100)), 65)])
   \<and> (\<exists>w'. runRealtimeTicker
            (\<lambda>url k. Resolved \<lparr>pairs = Some
               [\<lparr>priceUsd = Some (100105 / 1000), volume = Some \<lparr>h24 = Some 1000\<rparr>\<rparr>]\<rparr>)
            (\<lambda>k. 0) 10
            \<lparr>store = [''ticker:SOL'' \<mapsto> (Ticker (Some (10010 / 100)), 65)], reachable = True,
             published = [(REALTIME_CHANNEL, \<lparr>ev_symbol = ''SOL'', ev_price = Some (10010 / 100),
                                 ev_volume24h = Some 1000, ev_timestamp = 5\<rparr>)],
             console = []\<rparr> = Inr w'
        \<and> published w' =
            [(REALTIME_CHANNEL, \<lparr>ev_symbol = ''SOL'', ev_price = Some (10010 / 100),
                                 ev_volume24h = Some 1000, ev_timestamp = 5\<rparr>)]
        \<and> store w' = [''ticker:SOL'' \<mapsto> (Ticker (Some (100105 / 1000)), 70)])"
proof -
  let ?p1 = "\<lparr>priceUsd = Some (99::rat), volume = Some \<lparr>h24 = Some 10\<rparr>\<rparr>"
  let ?p2 = "\<lparr>priceUsd = Some (10010 / 100 :: rat), volume = Some \<lparr>h24 = Some 1000\<rparr>\<rparr>"
  let ?p3 = "\<lparr>priceUsd = Some (100105 / 1000 :: rat), volume = Some \<lparr>h24 = Some 1000\<rparr>\<rparr>"
  let ?ev = "(REALTIME_CHANNEL, \<lparr>ev_symbol = ''SOL'', ev_price = Some (10010 / 100),
                                 ev_volume24h = Some 1000, ev_timestamp = 5\<rparr>)"
  let ?w0 = "\<lparr>store = [''ticker:SOL'' \<mapsto> (Ticker (Some 100), 60)], reachable = True,
             published = [], console = []\<rparr>"
  let ?w1 = "\<lparr>store = [''ticker:SOL'' \<mapsto> (Ticker (Some (10010 / 100)), 65)], reachable = True,
             published = [?ev], console = []\<rparr>"
  have s1: "sort_desc volume_or_zero [?p1, ?p2] = ?p2 # [?p1]"
    by (simp add: sort_desc_def volume_or_zero_def)
  have s2: "sort_desc volume_or_zero [?p3] = ?p3 # []"
    by (simp add: sort_desc_def)
  have v: "volume ?p2 = Some \<lparr>h24 = Some 1000\<rparr>" "volume ?p3 = Some \<lparr>h24 = Some 1000\<rparr>" by simp_all
  have n: "priceUsd ?p2 = Some (10010 / 100)" "priceUsd ?p3 = Some (100105 / 1000)" by simp_all
  have g0: "getJson ?w0 5 ''ticker:SOL'' = Inr (Some (Ticker (Some 100)))"
    by (simp add: getJson_def)
  have g1: "getJson ?w1 10 ''ticker:SOL'' = Inr (Some (Ticker (Some (10010 / 100))))"
    by (simp add: getJson_def)
  have wf0: "Some (Ticker (Some (100::rat))) = None
           \<or> (\<exists>old. Some (Ticker (Some (100::rat))) = Some (Ticker (Some old)) \<and> old \<noteq> 0)"
    by simp
  have wf1: "Some (Ticker (Some (10010 / 100 :: rat))) = None
           \<or> (\<exists>old. Some (Ticker (Some (10010 / 100 :: rat))) = Some (Ticker (Some old)) \<and> old \<noteq> 0)"
    by (intro disjI2 exI [of _ "10010 / 100"]) simp
  have c1: "\<exists>old. Some (Ticker (Some (100::rat))) = Some (Ticker (Some old))
                \<and> \<bar>10010 / 100 - old\<bar> / old > 5 / 10000"
    by (intro exI [of _ 100]) simp
  have c2: "\<not> (\<exists>old. Some (Ticker (Some (10010 / 100 :: rat))) = Some (Ticker (Some old))
                \<and> \<bar>100105 / 1000 - old\<bar> / old > 5 / 10000)"
  proof (rule notI, elim exE conjE)
    fix old :: rat
    assume "Some (Ticker (Some (10010 / 100 :: rat))) = Some (Ticker (Some old))"
    then have o: "old = 10010 / 100" by simp
    assume "5 / 10000 < \<bar>100105 / 1000 - old\<bar> / old"
    then show False unfolding o by simp
  qed
  from ticker_cycle_with_volume [OF fetch_ok s1 v(1) n(1) g0 wf0]
  obtain wa where a: "runRealtimeTicker (\<lambda>url k. Resolved \<lparr>pairs = Some [?p1, ?p2]\<rparr>) (\<lambda>k. 0) 5 ?w0 = Inr wa"
    "published wa = [?ev]"
    "store wa = [''ticker:SOL'' \<mapsto> (Ticker (Some (10010 / 100)), 65)]"
    unfolding if_P [OF c1] by auto
  from ticker_cycle_with_volume [OF fetch_ok s2 v(2) n(2) g1 wf1]
  obtain wb where b: "runRealtimeTicker (\<lambda>url k. Resolved \<lparr>pairs = Some [?p3]\<rparr>) (\<lambda>k. 0) 10 ?w1 = Inr wb"
    "published wb = [?ev]"
    "store wb = [''ticker:SOL'' \<mapsto> (Ticker (Some (100105 / 1000)), 70)]"
    unfolding if_not_P [OF c2] by auto
  show ?thesis
    using a b by blast
qed

section \<open>Properties of the broadcast gateway\<close>

text \<open>
  Claim C9. For a message on the broadcast channel: when \<open>JSON.parse\<close> fails, no event
  is delivered to any client and exactly one error is logged; when it succeeds, the
  parsed payload is delivered as \<open>priceUpdate\<close> to every connected client. The handler
  returns in both cases.
\<close>

theorem broadcast_message_handling:
  "(parse message = None \<longrightarrow>
      emitted (on_message parse REALTIME_CHANNEL message g) = emitted g
    \<and> gw_console (on_message parse REALTIME_CHANNEL message g)
        = gw_console g @ [LogError ''Error parsing Redis message:''])
   \<and> (\<forall>d. parse message = Some d \<longrightarrow>
      emitted (on_message parse REALTIME_CHANNEL message g)
        = emitted g @ map (\<lambda>c. (c, ''priceUpdate'', d)) (clients g))"
  by (simp add: on_message_def io_emit_def Let_def)

text \<open>Two clients; a malformed payload, then a payload that parses.\<close>

theorem broadcast_message_handling_witness:
  "emitted (on_message (\<lambda>s. if s = ''42'' then Some (JNum 42) else None) REALTIME_CHANNEL ''{oops''
            \<lparr>clients = [''a'', ''b''], emitted = [], gw_console = []\<rparr>) = []
   \<and> gw_console (on_message (\<lambda>s. if s = ''42'' then Some (JNum 42) else None) REALTIME_CHANNEL ''{oops''
            \<lparr>clients = [''a'', ''b''], emitted = [], gw_console = []\<rparr>)
       = [LogError ''Error parsing Redis message:'']
   \<and> emitted (on_message (\<lambda>s. if s = ''42'' then Some (JNum 42) else None) REALTIME_CHANNEL ''42''
            \<lparr>clients = [''a'', ''b''], emitted = [], gw_console = []\<rparr>)
       = [(''a'', ''priceUpdate'', JNum 42), (''b'', ''priceUpdate'', JNum 42)]"
  using broadcast_message_handling [of "\<lambda>s. if s = ''42'' then Some (JNum 42) else None" "''{oops''"
          "\<lparr>clients = [''a'', ''b''], emitted = [], gw_console = []\<rparr>"]
        broadcast_message_handling [of "\<lambda>s. if s = ''42'' then Some (JNum 42) else None" "''42''"
          "\<lparr>clients = [''a'', ''b''], emitted = [], gw_console = []\<rparr>"]
  by simp

end
